theory Spec2Isabelle
  imports Complex_Main "HOL-Library.Word" "HOL-Library.Monad_Syntax" "HOL-Library.Sublist"
begin

section \<open>JavaScript values\<close>

text \<open>
  A JavaScript string is a sequence of UTF-16 code units and \<open>.length\<close> counts code
  units, so a string is a list of 16-bit words and \<open>length\<close> is \<open>.length\<close>.
  \<open>js\<close> turns an ASCII literal into such a string.
\<close>

type_synonym js_string = "16 word list"

definition js :: "string \<Rightarrow> js_string" where
  "js s = map of_char s"

text \<open>
  The values of type \<open>unknown\<close> that the handlers receive from \<open>request.json()\<close>,
  \<open>JSON.parse\<close> and \<open>Response.json()\<close>. An object is the list of its own
  properties; a property is looked up with \<open>map_of\<close>. A number carries a rational:
  the handlers observe of a number only whether it is zero.
\<close>

datatype jsval =
    JUndefined
  | JNull
  | JBool bool
  | JNum rat
  | JStr js_string
  | JArr "jsval list"
  | JObj "(js_string \<times> jsval) list"

text \<open>What \<open>if (v)\<close>, \<open>!v\<close> and \<open>v ? a : b\<close> test.\<close>

fun truthy :: "jsval \<Rightarrow> bool" where
  "truthy JUndefined = False"
| "truthy JNull = False"
| "truthy (JBool b) = b"
| "truthy (JNum n) = (n \<noteq> 0)"
| "truthy (JStr s) = (s \<noteq> [])"
| "truthy (JArr xs) = True"
| "truthy (JObj ps) = True"

text \<open>What \<open>??\<close> and \<open>?.\<close> test.\<close>

fun nullish :: "jsval \<Rightarrow> bool" where
  "nullish JUndefined = True"
| "nullish JNull = True"
| "nullish v = False"

text \<open>
  A value of type \<open>string | undefined\<close> (an environment variable, an optional field) is a
  \<open>js_string option\<close>; it is truthy when it is a non-empty string.
\<close>

fun truthy_str :: "js_string option \<Rightarrow> bool" where
  "truthy_str None = False"
| "truthy_str (Some s) = (s \<noteq> [])"

text \<open>
  \<open>data[key]\<close> on an object: the value of the own property, \<open>undefined\<close> when there is
  none.
\<close>

definition get_prop :: "(js_string \<times> jsval) list \<Rightarrow> js_string \<Rightarrow> jsval" where
  "get_prop ps k = (case map_of ps k of None \<Rightarrow> JUndefined | Some v \<Rightarrow> v)"

text \<open>
  \<open>v?.name\<close> for a property name that is neither an index nor a member of a built-in
  prototype (\<open>messages\<close> and \<open>id\<close> below): \<open>undefined\<close> on \<open>null\<close> and
  \<open>undefined\<close>, the own property on an object, \<open>undefined\<close> on every other value.
\<close>

fun opt_member :: "jsval \<Rightarrow> js_string \<Rightarrow> jsval" where
  "opt_member (JObj ps) k = get_prop ps k"
| "opt_member v k = JUndefined"

text \<open>
  \<open>v?.[0]\<close>: the first element of an array, the first code unit of a string (as a
  string), the property \<open>"0"\<close> of an object, \<open>undefined\<close> otherwise.
\<close>

fun opt_index0 :: "jsval \<Rightarrow> jsval" where
  "opt_index0 (JArr xs) = (case xs of [] \<Rightarrow> JUndefined | x # _ \<Rightarrow> x)"
| "opt_index0 (JStr s) = (case s of [] \<Rightarrow> JUndefined | c # _ \<Rightarrow> JStr [c])"
| "opt_index0 (JObj ps) = get_prop ps (js ''0'')"
| "opt_index0 v = JUndefined"

text \<open>\<open>a ?? b\<close>.\<close>

definition nullish_coalesce :: "jsval \<Rightarrow> jsval \<Rightarrow> jsval" where
  "nullish_coalesce a b = (if nullish a then b else a)"

text \<open>\<open>parts.join(sep)\<close> on an array of strings.\<close>

fun js_join :: "js_string \<Rightarrow> js_string list \<Rightarrow> js_string" where
  "js_join sep [] = []"
| "js_join sep [x] = x"
| "js_join sep (x # y # ys) = x @ sep @ js_join sep (y # ys)"

definition newline :: js_string where
  "newline = [0x0A]"





section \<open>Thrown values, replies, outbound calls\<close>

text \<open>
  The text of an error message. Two messages are built by \<open>JSON.stringify\<close>, which is
  not modelled: they are kept as what they are built from. \<open>UpstreamFailure st payload\<close>
  is \<open>WhatsApp API error (st): \<close> followed by the serialised payload;
  \<open>ZodIssueDump\<close> is the message of a \<open>ZodError\<close>, the serialised array of its issues
  (a text that starts with an opening bracket).
\<close>

datatype err_text =
    Text js_string
  | UpstreamFailure nat jsval
  | ZodIssueDump

text \<open>
  A thrown value: an \<open>Error\<close> with its message, or a value that is not an instance of
  \<open>Error\<close>.
\<close>

datatype thrown = ErrorObj err_text | NonError

text \<open>The \<open>details\<close> field of a 400 reply: \<open>String(error)\<close> or \<open>parsed.error.flatten()\<close>.\<close>

datatype details = StringOf thrown | Flattened

text \<open>
  \<open>`${v}`\<close> for a value of type \<open>string | undefined\<close>, and the same value as a field
  of an object literal.
\<close>

fun template_str :: "js_string option \<Rightarrow> js_string" where
  "template_str None = js ''undefined''"
| "template_str (Some s) = s"

fun str_value :: "js_string option \<Rightarrow> jsval" where
  "str_value None = JUndefined"
| "str_value (Some s) = JStr s"

section \<open>The data model\<close>

record Recipe =
  name :: js_string
  description :: js_string
  ingredients :: "js_string list"
  steps :: "js_string list"

record GenerationResult =
  summary :: js_string
  recipes :: "Recipe list"

text \<open>
  A reply of a route handler, \<open>NextResponse.json(body, {status})\<close>. The body is
  \<open>{error, details?}\<close>, the validated payload of the generation route, or
  \<open>{status, id}\<close> of the delivery route.
\<close>

datatype reply_body =
    ErrorBody err_text "details option"
  | GenerationBody GenerationResult
  | DeliveryBody js_string jsval

record Reply =
  http_status :: nat
  http_body :: reply_body

text \<open>
  What a handler does: the outbound calls it made, in order, and its reply. Writing to the
  console is left out.
\<close>

record 'c outcome =
  calls :: "'c list"
  reply :: Reply

definition respond :: "nat \<Rightarrow> reply_body \<Rightarrow> 'c outcome" where
  "respond st b = \<lparr>calls = [], reply = \<lparr>http_status = st, http_body = b\<rparr>\<rparr>"

text \<open>\<open>error instanceof Error ? error.message : fallback\<close>.\<close>

fun message_or :: "js_string \<Rightarrow> thrown \<Rightarrow> err_text" where
  "message_or fallback (ErrorObj m) = m"
| "message_or fallback NonError = Text fallback"

section \<open>Schemas\<close>

text \<open>
  A zod schema is the function that \<open>safeParse\<close> computes: from a value to the parsed
  data, \<open>None\<close> when there is an issue (\<open>parse\<close> then throws a \<open>ZodError\<close>). The
  issues themselves are not modelled. \<open>min\<close> and \<open>max\<close> compare \<open>.length\<close>, of a
  string and of an array alike.
\<close>

type_synonym 'a zod = "jsval \<Rightarrow> 'a option"

definition min_len :: "nat \<Rightarrow> 'a list \<Rightarrow> bool" where
  "min_len n xs = (n \<le> length xs)"

definition max_len :: "nat \<Rightarrow> 'a list \<Rightarrow> bool" where
  "max_len n xs = (length xs \<le> n)"

definition z_string :: "(js_string \<Rightarrow> bool) list \<Rightarrow> js_string zod" where
  "z_string checks v =
     (case v of
        JStr s \<Rightarrow> if list_all (\<lambda>check. check s) checks then Some s else None
      | _ \<Rightarrow> None)"

definition z_optional :: "'a zod \<Rightarrow> 'a option zod" where
  "z_optional schema v =
     (case v of JUndefined \<Rightarrow> Some None | _ \<Rightarrow> map_option Some (schema v))"

fun parse_elements :: "'a zod \<Rightarrow> jsval list \<Rightarrow> 'a list option" where
  "parse_elements schema [] = Some []"
| "parse_elements schema (v # vs) =
     (case schema v of
        None \<Rightarrow> None
      | Some x \<Rightarrow> map_option ((#) x) (parse_elements schema vs))"

definition z_array :: "'a zod \<Rightarrow> (jsval list \<Rightarrow> bool) list \<Rightarrow> 'a list zod" where
  "z_array schema checks v =
     (case v of
        JArr vs \<Rightarrow>
          if list_all (\<lambda>check. check vs) checks then parse_elements schema vs else None
      | _ \<Rightarrow> None)"

text \<open>
  \<open>z.object\<close> accepts an object only (not an array, not \<open>null\<close>), reads each key of its
  shape with \<open>data[key]\<close> and drops the other keys. \<open>z_object\<close> hands the properties to
  the parser of the shape.
\<close>

definition z_object :: "((js_string \<times> jsval) list \<Rightarrow> 'a option) \<Rightarrow> 'a zod" where
  "z_object shape v = (case v of JObj ps \<Rightarrow> shape ps | _ \<Rightarrow> None)"

section \<open>The delivery route: \<open>src/app/api/whatsapp/route.ts\<close>\<close>

record DeliveryData =
  message :: js_string
  phoneNumber :: "js_string option"

definition whatsappSchema :: "DeliveryData zod" where
  "whatsappSchema =
     z_object (\<lambda>ps. do {
       m \<leftarrow> z_string [min_len 10] (get_prop ps (js ''message''));
       p \<leftarrow> z_optional (z_string []) (get_prop ps (js ''phoneNumber''));
       Some \<lparr>message = m, phoneNumber = p\<rparr>
     })"

record WhatsAppEnv =
  token :: "js_string option"
  phoneId :: "js_string option"
  defaultRecipient :: "js_string option"

text \<open>
  The \<open>Response\<close> of \<open>fetch\<close>: \<open>ok\<close>, \<open>status\<close>, and what \<open>json()\<close> settles to.
\<close>

record FetchResponse =
  ok :: bool
  status :: nat
  resp_json :: "thrown + jsval"

record FetchCall =
  url :: js_string
  http_method :: js_string
  headers :: "(js_string \<times> js_string) list"
  json_body :: jsval

text \<open>\<open>await response.json().catch(() => ({}))\<close>.\<close>

definition json_or_empty :: "FetchResponse \<Rightarrow> jsval" where
  "json_or_empty r = (case resp_json r of Inl e \<Rightarrow> JObj [] | Inr v \<Rightarrow> v)"

text \<open>The body of the \<open>try\<close> block after \<open>fetch\<close> has settled (lines 86 to 99).\<close>

definition report_delivery :: "thrown + FetchResponse \<Rightarrow> thrown + Reply" where
  "report_delivery fetched =
     (case fetched of
        Inl error \<Rightarrow> Inl error
      | Inr whatsappResponse \<Rightarrow>
          if \<not> ok whatsappResponse then
            let errorPayload = json_or_empty whatsappResponse
            in Inl (ErrorObj (UpstreamFailure (status whatsappResponse) errorPayload))
          else
            let responseBody = json_or_empty whatsappResponse;
                messages = opt_member responseBody (js ''messages'')
            in Inr \<lparr>http_status = 200,
                    http_body = DeliveryBody
                      (if truthy messages then js ''queued'' else js ''sent'')
                      (nullish_coalesce (opt_member (opt_index0 messages) (js ''id'')) JNull)\<rparr>)"

definition POST_whatsapp ::
  "WhatsAppEnv \<Rightarrow> thrown + jsval \<Rightarrow> (FetchCall \<Rightarrow> thrown + FetchResponse) \<Rightarrow> FetchCall outcome"
where
  "POST_whatsapp env request_json fetch =
     (if \<not> truthy_str (token env) \<or> \<not> truthy_str (phoneId env) then
        respond 500 (ErrorBody (Text (js
          ''WhatsApp credentials are not configured. Set WHATSAPP_ACCESS_TOKEN and WHATSAPP_PHONE_NUMBER_ID.'')) None)
      else
        case request_json of
          Inl error \<Rightarrow>
            respond 400 (ErrorBody (Text (js ''Invalid JSON body.'')) (Some (StringOf error)))
        | Inr json \<Rightarrow>
            (case whatsappSchema json of
               None \<Rightarrow>
                 respond 400 (ErrorBody (Text (js ''Request validation failed.'')) (Some Flattened))
             | Some data \<Rightarrow>
                 let recipient =
                       (case phoneNumber data of Some p \<Rightarrow> Some p | None \<Rightarrow> defaultRecipient env)
                 in
                   if \<not> truthy_str recipient then
                     respond 400 (ErrorBody (Text (js
                       ''Provide a phoneNumber in the request or configure WHATSAPP_RECIPIENT.'')) None)
                   else
                     let call =
                           \<lparr>url = js ''https://graph.facebook.com/v19.0/'' @ template_str (phoneId env)
                                    @ js ''/messages'',
                            http_method = js ''POST'',
                            headers =
                              [(js ''Content-Type'', js ''application/json''),
                               (js ''Authorization'', js ''Bearer '' @ template_str (token env))],
                            json_body = JObj
                              [(js ''messaging_product'', JStr (js ''whatsapp'')),
                               (js ''to'', str_value recipient),
                               (js ''type'', JStr (js ''text'')),
                               (js ''text'', JObj
                                  [(js ''preview_url'', JBool False),
                                   (js ''body'', JStr (message data))])]\<rparr>
                     in
                       \<lparr>calls = [call],
                        reply =
                          (case report_delivery (fetch call) of
                             Inr r \<Rightarrow> r
                           | Inl error \<Rightarrow>
                               \<lparr>http_status = 502,
                                http_body = ErrorBody
                                  (message_or (js ''WhatsApp delivery failed unexpectedly.'') error)
                                  None\<rparr>)\<rparr>))"

section \<open>The generation route: \<open>src/app/api/generate/route.ts\<close>\<close>

record GenerateData =
  imageDataUrl :: js_string
  "notes" :: "js_string option"

text \<open>
  The regular expression \<open>/^data:image\/[a-zA-Z+]+;base64,/\<close>, tested without flags:
  the literal \<open>data:image/\<close> at the start, one or more characters of the class, then
  the literal \<open>;base64,\<close>.
\<close>

definition image_type_char :: "16 word \<Rightarrow> bool" where
  "image_type_char c = ((0x61 \<le> c \<and> c \<le> 0x7A) \<or> (0x41 \<le> c \<and> c \<le> 0x5A) \<or> c = 0x2B)"

fun class_plus_then :: "js_string \<Rightarrow> js_string \<Rightarrow> bool" where
  "class_plus_then k [] = False"
| "class_plus_then k (c # cs) = (image_type_char c \<and> (prefix k cs \<or> class_plus_then k cs))"

definition image_data_url_regex :: "js_string \<Rightarrow> bool" where
  "image_data_url_regex s =
     (prefix (js ''data:image/'') s \<and> class_plus_then (js '';base64,'') (drop 11 s))"

definition requestSchema :: "GenerateData zod" where
  "requestSchema =
     z_object (\<lambda>ps. do {
       i \<leftarrow> z_string [min_len 10, image_data_url_regex] (get_prop ps (js ''imageDataUrl''));
       n \<leftarrow> z_optional (z_string []) (get_prop ps (js ''notes''));
       Some \<lparr>imageDataUrl = i, notes = n\<rparr>
     })"

definition systemPrompt :: js_string where
  "systemPrompt = js_join newline (map js
       [
        '''',
        ''You are Kitchen Remix, a culinary assistant. A user uploads a photo of leftover ingredients from their kitchen.'',
        ''- First, inspect the image and infer the primary ingredients visible.'',
        ''- Blend that understanding with the provided notes (dietary needs, missing staples, equipment).'',
        ''- Produce a short summary that explains what you saw and the culinary direction you're taking.'',
        ''- Generate AT LEAST 3 distinct recipes (max 4). For each recipe provide:'',
        ''  - name (catchy but clear)'',
        ''  - description (1-2 sentences)'',
        ''  - ingredients (bullet array, include quantities using the leftovers plus a few common pantry items)'',
        ''  - steps (sequential array, concise but actionable)'',
        ''- Stay within normal home kitchen constraints. Note substitutions for missing items.'',
        ''- Output valid JSON following this TypeScript type:'',
        ''  type Payload = {'',
        ''    summary: string;'',
        ''    recipes: {'',
        ''      name: string;'',
        ''      description: string;'',
        ''      ingredients: string[];'',
        ''      steps: string[];'',
        ''    }[];'',
        ''  };'',
        ''- JSON only. No markdown, no code fences.'',
        ''''
       ])"

text \<open>The element schema of \<open>recipes\<close> in \<open>payloadSchema\<close> (lines 112 to 117).\<close>

definition recipeSchema :: "Recipe zod" where
  "recipeSchema =
     z_object (\<lambda>ps. do {
       n \<leftarrow> z_string [min_len 3] (get_prop ps (js ''name''));
       d \<leftarrow> z_string [min_len 10] (get_prop ps (js ''description''));
       i \<leftarrow> z_array (z_string [min_len 2]) [min_len 3] (get_prop ps (js ''ingredients''));
       s \<leftarrow> z_array (z_string [min_len 5]) [min_len 3] (get_prop ps (js ''steps''));
       Some \<lparr>name = n, description = d, ingredients = i, steps = s\<rparr>
     })"

definition payloadSchema :: "GenerationResult zod" where
  "payloadSchema =
     z_object (\<lambda>ps. do {
       s \<leftarrow> z_string [min_len 10] (get_prop ps (js ''summary''));
       r \<leftarrow> z_array recipeSchema [min_len 3, max_len 5] (get_prop ps (js ''recipes''));
       Some \<lparr>summary = s, recipes = r\<rparr>
     })"

text \<open>The argument of \<open>openai.responses.create\<close>.\<close>

record ModelCall =
  model :: js_string
  max_output_tokens :: nat
  input_text :: js_string
  image_url :: js_string
  detail :: js_string

text \<open>
  The body of the \<open>try\<close> block after the model call has settled (lines 94 to 125).
  \<open>JSON_parse\<close> is the platform's \<open>JSON.parse\<close>, \<open>None\<close> where it throws.
\<close>

definition read_model_reply ::
  "(js_string \<Rightarrow> jsval option) \<Rightarrow> thrown + js_string option \<Rightarrow> thrown + Reply"
where
  "read_model_reply JSON_parse created =
     (case created of
        Inl error \<Rightarrow> Inl error
      | Inr output_text \<Rightarrow>
          let raw = (case output_text of None \<Rightarrow> [] | Some t \<Rightarrow> t)
          in
            if raw = [] then Inl (ErrorObj (Text (js ''Model response was empty.'')))
            else
              (case JSON_parse raw of
                 None \<Rightarrow>
                   Inl (ErrorObj (Text (js
                     ''Model response was not valid JSON. Please retake the photo and try again.'')))
               | Some payload \<Rightarrow>
                   (case payloadSchema payload of
                      None \<Rightarrow> Inl (ErrorObj ZodIssueDump)
                    | Some parsedPayload \<Rightarrow>
                        Inr \<lparr>http_status = 200, http_body = GenerationBody parsedPayload\<rparr>)))"

text \<open>The argument object of \<open>openai.responses.create\<close> (lines 68 to 92).\<close>

definition model_call :: "GenerateData \<Rightarrow> ModelCall" where
  "model_call data =
     \<lparr>model = js ''gpt-4o-mini'',
      max_output_tokens = 1400,
      input_text =
        js_join (newline @ newline)
          [systemPrompt,
           if truthy_str (notes data)
           then js ''Notes from the cook: '' @ template_str (notes data)
           else js ''No additional notes provided.''],
      image_url = imageDataUrl data,
      detail = js ''high''\<rparr>"

definition POST_generate ::
  "js_string option \<Rightarrow> thrown + jsval \<Rightarrow> (ModelCall \<Rightarrow> thrown + js_string option)
     \<Rightarrow> (js_string \<Rightarrow> jsval option) \<Rightarrow> ModelCall outcome"
where
  "POST_generate OPENAI_API_KEY request_json responses_create JSON_parse =
     (if \<not> truthy_str OPENAI_API_KEY then
        respond 500 (ErrorBody (Text (js ''OPENAI_API_KEY is not set on the server.'')) None)
      else
        case request_json of
          Inl error \<Rightarrow>
            respond 400 (ErrorBody (Text (js ''Invalid JSON body.'')) (Some (StringOf error)))
        | Inr unknown_body \<Rightarrow>
            (case requestSchema unknown_body of
               None \<Rightarrow>
                 respond 400 (ErrorBody (Text (js ''Request validation failed.'')) (Some Flattened))
             | Some data \<Rightarrow>
                 \<lparr>calls = [model_call data],
                  reply =
                    (case read_model_reply JSON_parse (responses_create (model_call data)) of
                       Inr r \<Rightarrow> r
                     | Inl error \<Rightarrow>
                         \<lparr>http_status = 500,
                          http_body = ErrorBody
                            (message_or (js ''Recipe generation failed unexpectedly.'') error)
                            None\<rparr>)\<rparr>))"

section \<open>The transcript: \<open>combinedMessage\<close> in \<open>src/app/page.tsx\<close>\<close>


definition bullet :: js_string where
  "bullet = [0x2022, 0x20]"






section \<open>The notions of the specification\<close>

subsection \<open>Delivery\<close>

text \<open>
  The recipient a delivery request supplies: the string under \<open>phoneNumber\<close> in its
  body. A request whose body cannot be read, or that has no such string, supplies none.
\<close>

fun supplied_recipient :: "thrown + jsval \<Rightarrow> js_string option" where
  "supplied_recipient (Inl e) = None"
| "supplied_recipient (Inr v) =
     (case opt_member v (js ''phoneNumber'') of JStr p \<Rightarrow> Some p | _ \<Rightarrow> None)"

text \<open>The \<open>to\<close> field of the payload of an outbound message.\<close>

definition to_field :: "FetchCall \<Rightarrow> jsval" where
  "to_field c = opt_member (json_body c) (js ''to'')"

text \<open>The \<open>messages\<close> array of a response body, when the body has one.\<close>

definition messages_array :: "jsval \<Rightarrow> jsval list option" where
  "messages_array v = (case opt_member v (js ''messages'') of JArr ms \<Rightarrow> Some ms | _ \<Rightarrow> None)"

text \<open>The identifier of the first message of the array, \<open>null\<close> when there is none.\<close>

fun first_message_id :: "jsval list \<Rightarrow> jsval" where
  "first_message_id [] = JNull"
| "first_message_id (m # ms) =
     (if nullish (opt_member m (js ''id'')) then JNull else opt_member m (js ''id''))"

subsection \<open>Generation\<close>

text \<open>The bounds of the data model on a Recipe and on a GenerationResult.\<close>

definition Recipe_ok :: "Recipe \<Rightarrow> bool" where
  "Recipe_ok r =
     (3 \<le> length (name r) \<and> 10 \<le> length (description r)
      \<and> 3 \<le> length (ingredients r) \<and> list_all (\<lambda>i. 2 \<le> length i) (ingredients r)
      \<and> 3 \<le> length (steps r) \<and> list_all (\<lambda>s. 5 \<le> length s) (steps r))"

definition GenerationResult_ok :: "GenerationResult \<Rightarrow> bool" where
  "GenerationResult_ok g =
     (10 \<le> length (summary g) \<and> 3 \<le> length (recipes g) \<and> length (recipes g) \<le> 5
      \<and> list_all Recipe_ok (recipes g))"

text \<open>
  The same bounds read off the model's reply, an untyped value: a field that is missing or
  of another type violates its bound.
\<close>

fun string_of_at_least :: "nat \<Rightarrow> jsval \<Rightarrow> bool" where
  "string_of_at_least n (JStr s) = (n \<le> length s)"
| "string_of_at_least n v = False"

fun strings_of_at_least :: "nat \<Rightarrow> nat \<Rightarrow> jsval \<Rightarrow> bool" where
  "strings_of_at_least k n (JArr vs) = (k \<le> length vs \<and> list_all (string_of_at_least n) vs)"
| "strings_of_at_least k n v = False"

definition recipe_within_bounds :: "jsval \<Rightarrow> bool" where
  "recipe_within_bounds v =
     (string_of_at_least 3 (opt_member v (js ''name''))
      \<and> string_of_at_least 10 (opt_member v (js ''description''))
      \<and> strings_of_at_least 3 2 (opt_member v (js ''ingredients''))
      \<and> strings_of_at_least 3 5 (opt_member v (js ''steps'')))"

text \<open>The number of recipes of a reply, when it has an array of them.\<close>

definition recipe_count :: "jsval \<Rightarrow> nat option" where
  "recipe_count v =
     (case opt_member v (js ''recipes'') of JArr vs \<Rightarrow> Some (length vs) | _ \<Rightarrow> None)"

definition reply_within_bounds :: "jsval \<Rightarrow> bool" where
  "reply_within_bounds v =
     (string_of_at_least 10 (opt_member v (js ''summary''))
      \<and> (case opt_member v (js ''recipes'') of
            JArr vs \<Rightarrow> 3 \<le> length vs \<and> length vs \<le> 5 \<and> list_all recipe_within_bounds vs
          | _ \<Rightarrow> False))"

text \<open>
  The image payload of a generation request: the string under \<open>imageDataUrl\<close> in its
  body, if there is one.
\<close>

fun image_payload :: "thrown + jsval \<Rightarrow> js_string option" where
  "image_payload (Inl e) = None"
| "image_payload (Inr v) =
     (case opt_member v (js ''imageDataUrl'') of JStr s \<Rightarrow> Some s | _ \<Rightarrow> None)"

text \<open>
  A payload whose prefix matches \<open>data:image/*;base64,\<close>, the star standing for any
  text: it starts with \<open>data:image/\<close> and \<open>;base64,\<close> occurs after that.
\<close>

definition has_image_prefix :: "js_string \<Rightarrow> bool" where
  "has_image_prefix s =
     (prefix (js ''data:image/'') s \<and> sublist (js '';base64,'') (drop 11 s))"

text \<open>A message that tells the user to take the photo again.\<close>

fun retry_guidance :: "err_text \<Rightarrow> bool" where
  "retry_guidance (Text t) = sublist (js ''retake the photo'') t"
| "retry_guidance m = False"

subsection \<open>The transcript\<close>















section \<open>Sample inputs\<close>

definition env_configured :: WhatsAppEnv where
  "env_configured =
     \<lparr>token = Some (js ''EAAG-token''), phoneId = Some (js ''105500''),
      defaultRecipient = Some (js ''15550001111'')\<rparr>"

definition env_without_default :: WhatsAppEnv where
  "env_without_default =
     \<lparr>token = Some (js ''EAAG-token''), phoneId = Some (js ''105500''),
      defaultRecipient = None\<rparr>"

definition env_unconfigured :: WhatsAppEnv where
  "env_unconfigured = \<lparr>token = None, phoneId = None, defaultRecipient = None\<rparr>"

definition env_without_token :: WhatsAppEnv where
  "env_without_token =
     \<lparr>token = None, phoneId = Some (js ''105500''),
      defaultRecipient = Some (js ''15550001111'')\<rparr>"

text \<open>Delivery requests: a message alone, and a message with a phone number.\<close>

definition message_only :: "thrown + jsval" where
  "message_only = Inr (JObj [(js ''message'', JStr (js ''Dinner is ready at eight.''))])"

definition message_to :: "js_string \<Rightarrow> thrown + jsval" where
  "message_to p =
     Inr (JObj [(js ''message'', JStr (js ''Dinner is ready at eight.'')),
                (js ''phoneNumber'', JStr p)])"

definition unreadable_body :: "thrown + jsval" where
  "unreadable_body = Inl (ErrorObj (Text (js ''Unexpected end of JSON input'')))"

text \<open>A \<open>fetch\<close> that resolves to a given response, and one that rejects.\<close>

definition fetch_resolves :: "FetchResponse \<Rightarrow> FetchCall \<Rightarrow> thrown + FetchResponse" where
  "fetch_resolves r call = Inr r"

definition fetch_rejects :: "FetchCall \<Rightarrow> thrown + FetchResponse" where
  "fetch_rejects call = Inl (ErrorObj (Text (js ''fetch failed'')))"

definition ok_with :: "jsval \<Rightarrow> FetchResponse" where
  "ok_with v = \<lparr>ok = True, status = 200, resp_json = Inr v\<rparr>"

text \<open>Generation requests and model replies.\<close>

definition image_request :: "js_string \<Rightarrow> thrown + jsval" where
  "image_request s = Inr (JObj [(js ''imageDataUrl'', JStr s)])"

definition png_data_url :: js_string where
  "png_data_url = js ''data:image/png;base64,iVBORw0KGgo=''"

definition text_data_url :: js_string where
  "text_data_url = js ''data:text/plain;base64,SGVsbG8=''"

definition model_replies :: "js_string \<Rightarrow> ModelCall \<Rightarrow> thrown + js_string option" where
  "model_replies t call = Inr (Some t)"

definition model_fails :: "ModelCall \<Rightarrow> thrown + js_string option" where
  "model_fails call = Inl (ErrorObj (Text (js ''Connection error.'')))"

definition three_recipes_text :: js_string where
  \<open>three_recipes_text = js
     ''{"summary":"Tomatoes, pasta and basil.","recipes":[{"name":"Quick Tomato Basil Pasta","description":"A fast weeknight pasta.","ingredients":["200g pasta","2 tomatoes","basil"],"steps":["Boil pasta","Saute tomatoes","Combine"]},{"name":"Tomato Soup","description":"A warm bowl of soup.","ingredients":["4 tomatoes","1 onion","salt"],"steps":["Chop all","Simmer 20 min","Blend smooth"]},{"name":"Basil Bruschetta","description":"Crisp toast with basil.","ingredients":["bread","basil","olive oil"],"steps":["Toast bread","Chop basil","Top and serve"]}]}''\<close>

definition three_recipes :: jsval where
  "three_recipes =
    JObj
      [(js ''summary'', JStr (js ''Tomatoes, pasta and basil.'')),
       (js ''recipes'', JArr
         [JObj
            [(js ''name'', JStr (js ''Quick Tomato Basil Pasta'')),
             (js ''description'', JStr (js ''A fast weeknight pasta.'')),
             (js ''ingredients'', JArr
               [JStr (js ''200g pasta''),
                JStr (js ''2 tomatoes''),
                JStr (js ''basil'')]),
             (js ''steps'', JArr
               [JStr (js ''Boil pasta''),
                JStr (js ''Saute tomatoes''),
                JStr (js ''Combine'')])],
          JObj
            [(js ''name'', JStr (js ''Tomato Soup'')),
             (js ''description'', JStr (js ''A warm bowl of soup.'')),
             (js ''ingredients'', JArr
               [JStr (js ''4 tomatoes''),
                JStr (js ''1 onion''),
                JStr (js ''salt'')]),
             (js ''steps'', JArr
               [JStr (js ''Chop all''),
                JStr (js ''Simmer 20 min''),
                JStr (js ''Blend smooth'')])],
          JObj
            [(js ''name'', JStr (js ''Basil Bruschetta'')),
             (js ''description'', JStr (js ''Crisp toast with basil.'')),
             (js ''ingredients'', JArr
               [JStr (js ''bread''),
                JStr (js ''basil''),
                JStr (js ''olive oil'')]),
             (js ''steps'', JArr
               [JStr (js ''Toast bread''),
                JStr (js ''Chop basil''),
                JStr (js ''Top and serve'')])]])]"

definition two_recipes_text :: js_string where
  \<open>two_recipes_text = js
     ''{"summary":"Tomatoes, pasta and basil.","recipes":[{"name":"Quick Tomato Basil Pasta","description":"A fast weeknight pasta.","ingredients":["200g pasta","2 tomatoes","basil"],"steps":["Boil pasta","Saute tomatoes","Combine"]},{"name":"Tomato Soup","description":"A warm bowl of soup.","ingredients":["4 tomatoes","1 onion","salt"],"steps":["Chop all","Simmer 20 min","Blend smooth"]}]}''\<close>

definition two_recipes :: jsval where
  "two_recipes =
    JObj
      [(js ''summary'', JStr (js ''Tomatoes, pasta and basil.'')),
       (js ''recipes'', JArr
         [JObj
            [(js ''name'', JStr (js ''Quick Tomato Basil Pasta'')),
             (js ''description'', JStr (js ''A fast weeknight pasta.'')),
             (js ''ingredients'', JArr
               [JStr (js ''200g pasta''),
                JStr (js ''2 tomatoes''),
                JStr (js ''basil'')]),
             (js ''steps'', JArr
               [JStr (js ''Boil pasta''),
                JStr (js ''Saute tomatoes''),
                JStr (js ''Combine'')])],
          JObj
            [(js ''name'', JStr (js ''Tomato Soup'')),
             (js ''description'', JStr (js ''A warm bowl of soup.'')),
             (js ''ingredients'', JArr
               [JStr (js ''4 tomatoes''),
                JStr (js ''1 onion''),
                JStr (js ''salt'')]),
             (js ''steps'', JArr
               [JStr (js ''Chop all''),
                JStr (js ''Simmer 20 min''),
                JStr (js ''Blend smooth'')])]])]"

text \<open>
  \<open>JSON.parse\<close> on the texts used below: the two replies above, the empty object, and a
  text that is not JSON.
\<close>

definition JSON_parse_sample :: "js_string \<Rightarrow> jsval option" where
  "JSON_parse_sample raw =
     (if raw = three_recipes_text then Some three_recipes
      else if raw = two_recipes_text then Some two_recipes
      else if raw = js ''{}'' then Some (JObj [])
      else None)"

definition pasta :: Recipe where
  "pasta =
     \<lparr>name = js ''Quick Tomato Basil Pasta'', description = js ''A fast weeknight pasta.'',
       ingredients = [js ''200g pasta'', js ''2 tomatoes'', js ''basil''],
       steps = [js ''Boil pasta'', js ''Saute tomatoes'', js ''Combine'']\<rparr>"

definition soup :: Recipe where
  "soup =
     \<lparr>name = js ''Tomato Soup'', description = js ''A warm bowl of soup.'',
       ingredients = [js ''4 tomatoes'', js ''1 onion'', js ''salt''],
       steps = [js ''Chop all'', js ''Simmer 20 min'', js ''Blend smooth'']\<rparr>"

text \<open>
  A recipe whose last step ends in white space, and one whose first ingredient holds a line
  feed.
\<close>

definition toast :: Recipe where
  "toast =
     \<lparr>name = js ''Garlic Toast'', description = js ''Crisp and quick.'',
      ingredients = [js ''bread'', js ''garlic'', js ''butter''],
      steps = [js ''Toast bread'', js ''Rub with garlic'', js ''Serve warm '' @ [0x09, 0x20]]\<rparr>"


definition bruschetta :: Recipe where
  "bruschetta =
     \<lparr>name = js ''Basil Bruschetta'', description = js ''Crisp toast with basil.'',
       ingredients = [js ''bread'', js ''basil'', js ''olive oil''],
       steps = [js ''Toast bread'', js ''Chop basil'', js ''Top and serve'']\<rparr>"

section \<open>The delivery route: properties\<close>

lemmas sample_defs = env_configured_def env_without_default_def env_unconfigured_def
  env_without_token_def message_only_def message_to_def unreadable_body_def fetch_resolves_def fetch_rejects_def ok_with_def

lemmas delivery_defs = POST_whatsapp_def Let_def respond_def report_delivery_def json_or_empty_def
  whatsappSchema_def z_object_def z_string_def z_optional_def min_len_def get_prop_def
  to_field_def nullish_coalesce_def messages_array_def js_def

lemma whatsappSchema_phone:
  "whatsappSchema v = Some d \<Longrightarrow> phoneNumber d = supplied_recipient (Inr v)"
  by (auto simp: whatsappSchema_def z_object_def z_string_def z_optional_def
           split: jsval.splits if_splits Option.bind_splits)

lemma whatsappSchema_accepts:
  "opt_member v (js ''message'') = JStr m \<Longrightarrow> 10 \<le> length m \<Longrightarrow>
   opt_member v (js ''phoneNumber'') = JStr p \<Longrightarrow>
   whatsappSchema v = Some \<lparr>message = m, phoneNumber = Some p\<rparr>"
  by (cases v) (auto simp: whatsappSchema_def z_object_def z_string_def z_optional_def min_len_def)

text \<open>Every outbound message comes from a request that passed the schema, and is addressed
  to the resolved recipient.\<close>

lemma delivery_calls:
  "c \<in> set (calls (POST_whatsapp env request_json fetch)) \<Longrightarrow>
    \<exists>v d. request_json = Inr v \<and> whatsappSchema v = Some d \<and>
       to_field c =
         str_value (case phoneNumber d of Some p \<Rightarrow> Some p | None \<Rightarrow> defaultRecipient env)"
  by (auto simp: POST_whatsapp_def respond_def Let_def to_field_def get_prop_def js_def
      split: if_splits sum.splits option.splits)

lemma delivery_rejects_falsy_recipient:
  assumes "truthy_str (token env)" "truthy_str (phoneId env)"
    and "\<not> truthy_str (case supplied_recipient request_json of
                           Some p \<Rightarrow> Some p | None \<Rightarrow> defaultRecipient env)"
  shows "calls (POST_whatsapp env request_json fetch) = []
       \<and> http_status (reply (POST_whatsapp env request_json fetch)) = 400"
proof (cases request_json)
  case (Inl e)
  then show ?thesis using assms by (simp add: POST_whatsapp_def respond_def)
next
  case (Inr v)
  show ?thesis
  proof (cases "whatsappSchema v")
    case None
    then show ?thesis using assms Inr by (simp add: POST_whatsapp_def respond_def)
  next
    case (Some d)
    from whatsappSchema_phone[OF Some] have "phoneNumber d = supplied_recipient request_json"
      using Inr by simp
    then show ?thesis using assms Inr Some
      by (simp add: POST_whatsapp_def respond_def Let_def)
  qed
qed

lemma delivery_unconfigured:
  "\<not> (truthy_str (token env) \<and> truthy_str (phoneId env)) \<Longrightarrow>
   calls (POST_whatsapp env request_json fetch) = []
   \<and> http_status (reply (POST_whatsapp env request_json fetch)) = 500"
  by (auto simp: POST_whatsapp_def respond_def)

text \<open>
  C3. Whenever the delivery route sends an outbound message, the \<open>to\<close> field of its
  payload is exactly the recipient the request supplied, whatever default is configured; it
  is the configured default only when the request supplied none. And a request with a
  message of at least ten characters and a non-empty recipient, on a server with both
  credentials, does send one message, addressed to that recipient.
\<close>

theorem explicit_recipient_overrides_default:
  "(\<forall>c \<in> set (calls (POST_whatsapp env request_json fetch)).
       to_field c = (case supplied_recipient request_json of
                       Some r \<Rightarrow> JStr r
                     | None \<Rightarrow> str_value (defaultRecipient env)))
   \<and> (truthy_str (token env) \<and> truthy_str (phoneId env)
        \<and> opt_member v (js ''message'') = JStr m \<and> 10 \<le> length m
        \<and> opt_member v (js ''phoneNumber'') = JStr r \<and> r \<noteq> []
      \<longrightarrow> map to_field (calls (POST_whatsapp env (Inr v) fetch)) = [JStr r])"
proof (intro conjI ballI impI)
  fix c assume "c \<in> set (calls (POST_whatsapp env request_json fetch))"
  from delivery_calls[OF this] obtain v d where
    v: "request_json = Inr v" and d: "whatsappSchema v = Some d"
    and t: "to_field c =
      str_value (case phoneNumber d of Some p \<Rightarrow> Some p | None \<Rightarrow> defaultRecipient env)"
    by blast
  from whatsappSchema_phone[OF d] v have "phoneNumber d = supplied_recipient request_json"
    by simp
  with t show "to_field c = (case supplied_recipient request_json of
                       Some r \<Rightarrow> JStr r
                     | None \<Rightarrow> str_value (defaultRecipient env))"
    by (simp split: option.splits)
next
  assume a: "truthy_str (token env) \<and> truthy_str (phoneId env)
        \<and> opt_member v (js ''message'') = JStr m \<and> 10 \<le> length m
        \<and> opt_member v (js ''phoneNumber'') = JStr r \<and> r \<noteq> []"
  then have "whatsappSchema v = Some \<lparr>message = m, phoneNumber = Some r\<rparr>"
    by (simp add: whatsappSchema_accepts)
  with a show "map to_field (calls (POST_whatsapp env (Inr v) fetch)) = [JStr r]"
    by (simp add: POST_whatsapp_def Let_def to_field_def get_prop_def js_def)
qed

text \<open>
  With a default configured, a request that names another number is sent to that number,
  and a request that names none is sent to the default.
\<close>

theorem explicit_recipient_overrides_default_witness:
  "supplied_recipient (message_to (js ''15557778888'')) = Some (js ''15557778888'')
   \<and> defaultRecipient env_configured = Some (js ''15550001111'')
   \<and> map to_field
        (calls (POST_whatsapp env_configured (message_to (js ''15557778888'')) fetch_rejects))
      = [JStr (js ''15557778888'')]
   \<and> supplied_recipient message_only = None
   \<and> map to_field (calls (POST_whatsapp env_configured message_only fetch_rejects))
      = [JStr (js ''15550001111'')]"
  using explicit_recipient_overrides_default
          [of env_configured "message_to (js ''15557778888'')" fetch_rejects]
  by (simp add: POST_whatsapp_def Let_def env_configured_def message_to_def message_only_def
       whatsappSchema_def z_object_def z_string_def z_optional_def min_len_def get_prop_def
       to_field_def js_def)

text \<open>
  C4, as the code has it. A request that supplies no recipient, on a server with no default
  recipient, fails without an outbound call: with the validation error 400 when both
  credentials are configured, with the configuration error 500 when one is not.
\<close>

theorem no_recipient_no_default_rejected:
  assumes "supplied_recipient request_json = None" and "defaultRecipient env = None"
  shows "calls (POST_whatsapp env request_json fetch) = []
       \<and> http_status (reply (POST_whatsapp env request_json fetch))
           = (if truthy_str (token env) \<and> truthy_str (phoneId env) then 400 else 500)"
  using assms delivery_rejects_falsy_recipient[of env request_json fetch]
    delivery_unconfigured[of env request_json fetch]
  by (cases "truthy_str (token env) \<and> truthy_str (phoneId env)") simp_all

theorem no_recipient_no_default_rejected_witness:
  "supplied_recipient message_only = None \<and> defaultRecipient env_without_default = None
   \<and> calls (POST_whatsapp env_without_default message_only fetch_rejects) = []
   \<and> http_status (reply (POST_whatsapp env_without_default message_only fetch_rejects)) = 400"
  using no_recipient_no_default_rejected[of message_only env_without_default fetch_rejects]
  by (simp add: env_without_default_def message_only_def get_prop_def js_def)

text \<open>
  C4 as stated fails: with no recipient, no default and no credentials the reply is 500,
  not 400.
\<close>

theorem no_recipient_unconfigured_counterexample:
  "supplied_recipient message_only = None \<and> defaultRecipient env_unconfigured = None
   \<and> http_status (reply (POST_whatsapp env_unconfigured message_only fetch_rejects)) = 500"
  by (simp add: POST_whatsapp_def env_unconfigured_def message_only_def respond_def
        get_prop_def js_def)

text \<open>
  C5, as the code has it. After a successful response of the messaging API the route
  replies 200. It reports \<open>queued\<close> when the \<open>messages\<close> property of the response body
  is truthy, which every array is, and then, for an array, the \<open>id\<close> of its first element,
  \<open>null\<close> if there is none. It reports \<open>sent\<close> with the identifier \<open>null\<close> when the
  property is missing or falsy. A body that cannot be read counts as the empty object.
\<close>

theorem delivery_state_reported:
  assumes "calls (POST_whatsapp env request_json fetch) = [c]" and "fetch c = Inr r" and "ok r"
  shows "http_status (reply (POST_whatsapp env request_json fetch)) = 200
     \<and> (messages_array (json_or_empty r) = Some ms \<longrightarrow>
          http_body (reply (POST_whatsapp env request_json fetch))
            = DeliveryBody (js ''queued'') (first_message_id ms))
     \<and> (truthy (opt_member (json_or_empty r) (js ''messages'')) \<longrightarrow>
          (\<exists>i. http_body (reply (POST_whatsapp env request_json fetch))
            = DeliveryBody (js ''queued'') i))
     \<and> (\<not> truthy (opt_member (json_or_empty r) (js ''messages'')) \<longrightarrow>
          http_body (reply (POST_whatsapp env request_json fetch))
            = DeliveryBody (js ''sent'') JNull)"
proof -
  have first: "nullish_coalesce (opt_member (opt_index0 (JArr xs)) k) JNull = first_message_id xs"
    if "k = js ''id''" for xs k
    using that by (cases xs) (simp_all add: nullish_coalesce_def)
  have falsy: "nullish_coalesce (opt_member (opt_index0 x) k) JNull = JNull"
    if "\<not> truthy x" for x k
    using that by (cases x) (simp_all add: nullish_coalesce_def)
  from assms have "reply (POST_whatsapp env request_json fetch)
      = \<lparr>http_status = 200, http_body = DeliveryBody
           (if truthy (opt_member (json_or_empty r) (js ''messages''))
            then js ''queued'' else js ''sent'')
           (nullish_coalesce
              (opt_member (opt_index0 (opt_member (json_or_empty r) (js ''messages'')))
                 (js ''id'')) JNull)\<rparr>"
    by (auto simp: POST_whatsapp_def respond_def Let_def report_delivery_def
        split: if_splits sum.splits option.splits)
  then show ?thesis
    using first falsy
    by (auto simp: messages_array_def split: jsval.splits)
qed

text \<open>
  A response with one message is reported as queued with that message's identifier; the
  empty object as sent, with no identifier.
\<close>

theorem delivery_state_reported_witness:
  "calls (POST_whatsapp env_configured message_only
            (fetch_resolves (ok_with (JObj [(js ''messages'', JArr [JObj [(js ''id'', JStr (js ''wamid.HBgL''))]])]))))
     = [\<lparr>url = js ''https://graph.facebook.com/v19.0/105500/messages'',
         http_method = js ''POST'',
         headers = [(js ''Content-Type'', js ''application/json''),
                    (js ''Authorization'', js ''Bearer EAAG-token'')],
         json_body = JObj
           [(js ''messaging_product'', JStr (js ''whatsapp'')),
            (js ''to'', JStr (js ''15550001111'')),
            (js ''type'', JStr (js ''text'')),
            (js ''text'', JObj [(js ''preview_url'', JBool False),
                                (js ''body'', JStr (js ''Dinner is ready at eight.''))])]\<rparr>]
   \<and> ok (ok_with (JObj [(js ''messages'', JArr [JObj [(js ''id'', JStr (js ''wamid.HBgL''))]])]))
   \<and> messages_array (json_or_empty (ok_with (JObj [(js ''messages'', JArr [JObj [(js ''id'', JStr (js ''wamid.HBgL''))]])])))
       = Some [JObj [(js ''id'', JStr (js ''wamid.HBgL''))]]
   \<and> reply (POST_whatsapp env_configured message_only
            (fetch_resolves (ok_with (JObj [(js ''messages'', JArr [JObj [(js ''id'', JStr (js ''wamid.HBgL''))]])]))))
     = \<lparr>http_status = 200, http_body = DeliveryBody (js ''queued'') (JStr (js ''wamid.HBgL''))\<rparr>
   \<and> \<not> truthy (opt_member (json_or_empty (ok_with (JObj []))) (js ''messages''))
   \<and> reply (POST_whatsapp env_configured message_only (fetch_resolves (ok_with (JObj []))))
     = \<lparr>http_status = 200, http_body = DeliveryBody (js ''sent'') JNull\<rparr>"
  using delivery_state_reported
     [of env_configured message_only
         "fetch_resolves (ok_with (JObj [(js ''messages'', JArr [JObj [(js ''id'', JStr (js ''wamid.HBgL''))]])]))"]
  by (simp add: sample_defs delivery_defs)

text \<open>
  C5 as stated fails: a response body whose \<open>messages\<close> is \<open>true\<close> contains no
  \<open>messages\<close> array, and is reported as queued, not as sent.
\<close>

theorem truthy_messages_counterexample:
  "messages_array (JObj [(js ''messages'', JBool True)]) = None
   \<and> http_body (reply (POST_whatsapp env_configured message_only
        (fetch_resolves (ok_with (JObj [(js ''messages'', JBool True)])))))
      = DeliveryBody (js ''queued'') JNull"
  by (simp add: sample_defs delivery_defs)

text \<open>
  C6. When the access token or the sender identifier is absent from the configuration,
  every delivery request, whatever its content, fails with status 500 and an error body,
  and no outbound call is made.
\<close>

theorem missing_credentials_fail_fast:
  assumes "token env = None \<or> phoneId env = None"
  shows "http_status (reply (POST_whatsapp env request_json fetch)) = 500
       \<and> (\<exists>m. http_body (reply (POST_whatsapp env request_json fetch)) = ErrorBody m None)
       \<and> calls (POST_whatsapp env request_json fetch) = []"
  using assms by (auto simp: POST_whatsapp_def respond_def)

theorem missing_credentials_fail_fast_witness:
  "(token env_without_token = None \<or> phoneId env_without_token = None)
   \<and> http_status (reply (POST_whatsapp env_without_token (message_to (js ''15557778888''))
        (fetch_resolves (ok_with (JObj []))))) = 500
   \<and> calls (POST_whatsapp env_without_token (message_to (js ''15557778888''))
        (fetch_resolves (ok_with (JObj [])))) = []"
  using missing_credentials_fail_fast
    [of env_without_token "message_to (js ''15557778888'')" "fetch_resolves (ok_with (JObj []))"]
  by (simp add: env_without_token_def)

text \<open>
  C9, as the code has it. A request whose \<open>phoneNumber\<close> is the empty string fails
  without an outbound call, whether or not a default recipient is configured: the empty
  string does not fall back to the default. The failure is the validation error 400 when
  both credentials are configured, the configuration error 500 when one is not.
\<close>

theorem empty_phone_number_rejected:
  assumes "supplied_recipient request_json = Some []"
  shows "calls (POST_whatsapp env request_json fetch) = []
       \<and> http_status (reply (POST_whatsapp env request_json fetch))
           = (if truthy_str (token env) \<and> truthy_str (phoneId env) then 400 else 500)"
  using assms delivery_rejects_falsy_recipient[of env request_json fetch]
    delivery_unconfigured[of env request_json fetch]
  by (cases "truthy_str (token env) \<and> truthy_str (phoneId env)") simp_all

theorem empty_phone_number_rejected_witness:
  "supplied_recipient (message_to []) = Some []
   \<and> defaultRecipient env_configured = Some (js ''15550001111'')
   \<and> calls (POST_whatsapp env_configured (message_to []) fetch_rejects) = []
   \<and> http_status (reply (POST_whatsapp env_configured (message_to []) fetch_rejects)) = 400"
  using empty_phone_number_rejected[of "message_to []" env_configured fetch_rejects]
  by (simp add: env_configured_def message_to_def get_prop_def js_def)

text \<open>
  C9 as stated fails: with the empty phone number, a default recipient and no access token
  the reply is 500, not 400.
\<close>

theorem empty_phone_number_unconfigured_counterexample:
  "supplied_recipient (message_to []) = Some []
   \<and> defaultRecipient env_without_token = Some (js ''15550001111'')
   \<and> http_status (reply (POST_whatsapp env_without_token (message_to []) fetch_rejects)) = 500"
  by (simp add: POST_whatsapp_def env_without_token_def message_to_def respond_def
       get_prop_def js_def)

text \<open>
  C10. The credentials are checked before the request body is read or validated: when
  either is absent, the outcome is the 500 configuration error with no outbound call, the
  same for every request (a body that is not JSON and a body that fails the schema
  included) and never a 400.
\<close>

theorem credentials_checked_before_body:
  assumes "token env = None \<or> phoneId env = None"
  shows "POST_whatsapp env request_json fetch =
     respond 500 (ErrorBody (Text (js
       ''WhatsApp credentials are not configured. Set WHATSAPP_ACCESS_TOKEN and WHATSAPP_PHONE_NUMBER_ID.'')) None)
    \<and> http_status (reply (POST_whatsapp env request_json fetch)) \<noteq> 400"
  using assms by (auto simp: POST_whatsapp_def respond_def)

text \<open>
  Without credentials an unreadable body and a body that fails the schema both get 500;
  with credentials the same two requests get 400.
\<close>

theorem credentials_checked_before_body_witness:
  "(token env_unconfigured = None \<or> phoneId env_unconfigured = None)
   \<and> http_status (reply (POST_whatsapp env_unconfigured unreadable_body fetch_rejects)) = 500
   \<and> whatsappSchema (JObj []) = None
   \<and> http_status (reply (POST_whatsapp env_unconfigured (Inr (JObj [])) fetch_rejects)) = 500
   \<and> http_status (reply (POST_whatsapp env_without_default unreadable_body fetch_rejects)) = 400
   \<and> http_status (reply (POST_whatsapp env_without_default (Inr (JObj [])) fetch_rejects)) = 400"
  using credentials_checked_before_body[of env_unconfigured unreadable_body fetch_rejects]
    credentials_checked_before_body[of env_unconfigured "Inr (JObj [])" fetch_rejects]
  by (simp add: sample_defs delivery_defs)

section \<open>The generation route: properties\<close>

lemma z_string_min:
  "z_string [min_len n] v = Some s \<longleftrightarrow> v = JStr s \<and> n \<le> length s"
  by (cases v) (auto simp: z_string_def min_len_def)

lemma z_string_min_None:
  "z_string [min_len n] v = None \<longleftrightarrow> \<not> string_of_at_least n v"
  by (cases v) (auto simp: z_string_def min_len_def)

lemma parse_elements_length:
  "parse_elements schema vs = Some xs \<Longrightarrow> length xs = length vs"
  by (induction vs arbitrary: xs) (auto split: option.splits)

lemma parse_elements_all:
  "parse_elements schema vs = Some xs \<Longrightarrow> (\<And>v x. schema v = Some x \<Longrightarrow> P x) \<Longrightarrow> list_all P xs"
  by (induction vs arbitrary: xs) (auto split: option.splits)

lemma parse_elements_None:
  "parse_elements schema vs = None \<longleftrightarrow> \<not> list_all (\<lambda>v. schema v \<noteq> None) vs"
  by (induction vs) (auto split: option.splits)

lemma z_array_strings:
  assumes "z_array (z_string [min_len n]) [min_len k] v = Some xs"
  shows "k \<le> length xs \<and> list_all (\<lambda>s. n \<le> length s) xs"
proof -
  from assms obtain vs where v: "v = JArr vs" "k \<le> length vs"
      and p: "parse_elements (z_string [min_len n]) vs = Some xs"
    by (cases v) (auto simp: z_array_def min_len_def split: if_splits)
  from p have "length xs = length vs" by (rule parse_elements_length)
  moreover from p have "list_all (\<lambda>s. n \<le> length s) xs"
    by (rule parse_elements_all) (simp add: z_string_min)
  ultimately show ?thesis using v by simp
qed

lemma z_array_strings_None:
  "z_array (z_string [min_len n]) [min_len k] v = None \<longleftrightarrow> \<not> strings_of_at_least k n v"
proof (cases v)
  case (JArr vs)
  have "list_all (\<lambda>v. z_string [min_len n] v \<noteq> None) vs = list_all (string_of_at_least n) vs"
    by (simp only: z_string_min_None not_not)
  then show ?thesis
    by (simp add: JArr z_array_def min_len_def parse_elements_None)
qed (simp_all add: z_array_def)


lemma recipeSchema_unfold:
  "recipeSchema (JObj ps) =
     (case z_string [min_len 3] (get_prop ps (js ''name'')) of
        None \<Rightarrow> None
      | Some n \<Rightarrow>
       (case z_string [min_len 10] (get_prop ps (js ''description'')) of
          None \<Rightarrow> None
        | Some d \<Rightarrow>
         (case z_array (z_string [min_len 2]) [min_len 3] (get_prop ps (js ''ingredients'')) of
            None \<Rightarrow> None
          | Some i \<Rightarrow>
           (case z_array (z_string [min_len 5]) [min_len 3] (get_prop ps (js ''steps'')) of
              None \<Rightarrow> None
            | Some s \<Rightarrow> Some \<lparr>name = n, description = d, ingredients = i, steps = s\<rparr>))))"
  by (simp add: recipeSchema_def z_object_def split: option.splits)

lemma recipeSchema_Some:
  assumes "recipeSchema v = Some r"
  shows "Recipe_ok r"
proof (cases v)
  case (JObj ps)
  from assms obtain n d i s where
    "z_string [min_len 3] (get_prop ps (js ''name'')) = Some n"
    "z_string [min_len 10] (get_prop ps (js ''description'')) = Some d"
    "z_array (z_string [min_len 2]) [min_len 3] (get_prop ps (js ''ingredients'')) = Some i"
    "z_array (z_string [min_len 5]) [min_len 3] (get_prop ps (js ''steps'')) = Some s"
    "r = \<lparr>name = n, description = d, ingredients = i, steps = s\<rparr>"
    unfolding JObj recipeSchema_unfold by (auto split: option.splits)
  then show ?thesis
    using z_array_strings[of 2 3 _ i] z_array_strings[of 5 3 _ s]
    by (simp add: Recipe_ok_def z_string_min)
qed (use assms in \<open>simp_all add: recipeSchema_def z_object_def\<close>)

lemma recipeSchema_None:
  "recipeSchema v = None \<longleftrightarrow> \<not> recipe_within_bounds v"
proof (cases v)
  case (JObj ps)
  show ?thesis
    unfolding JObj recipeSchema_unfold recipe_within_bounds_def opt_member.simps
    using z_string_min_None[of 3 "get_prop ps (js ''name'')"]
      z_string_min_None[of 10 "get_prop ps (js ''description'')"]
      z_array_strings_None[of 2 3 "get_prop ps (js ''ingredients'')"]
      z_array_strings_None[of 5 3 "get_prop ps (js ''steps'')"]
    by (auto split: option.splits)
qed (simp_all add: recipeSchema_def z_object_def recipe_within_bounds_def)


lemma payloadSchema_unfold:
  "payloadSchema (JObj ps) =
     (case z_string [min_len 10] (get_prop ps (js ''summary'')) of
        None \<Rightarrow> None
      | Some s \<Rightarrow>
       (case z_array recipeSchema [min_len 3, max_len 5] (get_prop ps (js ''recipes'')) of
          None \<Rightarrow> None
        | Some r \<Rightarrow> Some \<lparr>summary = s, recipes = r\<rparr>))"
  by (simp add: payloadSchema_def z_object_def split: option.splits)

lemma z_array_recipes:
  "z_array recipeSchema [min_len 3, max_len 5] v =
     (case v of
        JArr vs \<Rightarrow> if 3 \<le> length vs \<and> length vs \<le> 5 then parse_elements recipeSchema vs else None
      | _ \<Rightarrow> None)"
  by (simp add: z_array_def min_len_def max_len_def split: jsval.splits)

lemma payloadSchema_Some:
  assumes "payloadSchema v = Some g"
  shows "GenerationResult_ok g \<and> recipe_count v = Some (length (recipes g))"
proof (cases v)
  case (JObj ps)
  from assms obtain s r where
    s: "z_string [min_len 10] (get_prop ps (js ''summary'')) = Some s"
    and r: "z_array recipeSchema [min_len 3, max_len 5] (get_prop ps (js ''recipes'')) = Some r"
    and g: "g = \<lparr>summary = s, recipes = r\<rparr>"
    unfolding JObj payloadSchema_unfold by (auto split: option.splits)
  from r obtain vs where vs: "get_prop ps (js ''recipes'') = JArr vs" "3 \<le> length vs"
      "length vs \<le> 5" "parse_elements recipeSchema vs = Some r"
    unfolding z_array_recipes by (auto split: jsval.splits if_splits)
  from vs(4) have "length r = length vs" by (rule parse_elements_length)
  moreover from vs(4) have "list_all Recipe_ok r"
    by (rule parse_elements_all) (rule recipeSchema_Some)
  ultimately show ?thesis using s vs g JObj
    by (simp add: GenerationResult_ok_def recipe_count_def z_string_min)
qed (use assms in \<open>simp_all add: payloadSchema_def z_object_def\<close>)

lemma payloadSchema_None:
  "payloadSchema v = None \<longleftrightarrow> \<not> reply_within_bounds v"
proof (cases v)
  case (JObj ps)
  have "list_all (\<lambda>v. recipeSchema v \<noteq> None) vs = list_all recipe_within_bounds vs" for vs
    by (simp only: recipeSchema_None not_not)
  then have "z_array recipeSchema [min_len 3, max_len 5] x = None \<longleftrightarrow>
      \<not> (case x of JArr vs \<Rightarrow> 3 \<le> length vs \<and> length vs \<le> 5 \<and> list_all recipe_within_bounds vs
          | _ \<Rightarrow> False)" for x
    unfolding z_array_recipes by (auto simp: parse_elements_None split: jsval.splits)
  from this[of "get_prop ps (js ''recipes'')"] show ?thesis
    unfolding JObj payloadSchema_unfold reply_within_bounds_def opt_member.simps
    using z_string_min_None[of 10 "get_prop ps (js ''summary'')"]
    by (auto split: option.splits)
qed (simp_all add: payloadSchema_def z_object_def reply_within_bounds_def)


lemmas generate_samples = image_request_def png_data_url_def model_replies_def model_fails_def
  JSON_parse_sample_def three_recipes_def two_recipes_def three_recipes_text_def
  two_recipes_text_def pasta_def soup_def bruschetta_def

lemmas schema_defs = requestSchema_def payloadSchema_def recipeSchema_def z_object_def
  z_string_def z_optional_def z_array_def min_len_def max_len_def get_prop_def
  image_data_url_regex_def image_type_char_def

lemma read_model_reply_Inr:
  assumes "read_model_reply parse created = Inr r"
  shows "\<exists>payload g. payloadSchema payload = Some g
           \<and> r = \<lparr>http_status = 200, http_body = GenerationBody g\<rparr>"
  using assms
  by (auto simp: read_model_reply_def Let_def split: sum.splits option.splits if_splits)

lemma read_model_reply_payload:
  assumes "raw \<noteq> []" and "parse raw = Some payload"
  shows "read_model_reply parse (Inr (Some raw)) =
           (case payloadSchema payload of
              None \<Rightarrow> Inl (ErrorObj ZodIssueDump)
            | Some g \<Rightarrow> Inr \<lparr>http_status = 200, http_body = GenerationBody g\<rparr>)"
  using assms by (simp add: read_model_reply_def)

lemma generate_called:
  assumes "calls (POST_generate key request_json create parse) = [c]"
  shows "reply (POST_generate key request_json create parse) =
           (case read_model_reply parse (create c) of
              Inr r \<Rightarrow> r
            | Inl error \<Rightarrow>
                \<lparr>http_status = 500,
                 http_body = ErrorBody
                   (message_or (js ''Recipe generation failed unexpectedly.'') error) None\<rparr>)"
proof (cases "truthy_str key")
  case False
  then show ?thesis using assms by (simp add: POST_generate_def respond_def)
next
  case True
  show ?thesis
  proof (cases request_json)
    case (Inl e)
    then show ?thesis using assms True by (simp add: POST_generate_def respond_def)
  next
    case (Inr v)
    then show ?thesis using assms True
      by (cases "requestSchema v") (auto simp: POST_generate_def respond_def)
  qed
qed

lemma generate_not_called:
  assumes "calls (POST_generate key request_json create parse) = []"
  shows "http_status (reply (POST_generate key request_json create parse)) \<in> {400, 500}"
proof (cases "truthy_str key")
  case False
  then show ?thesis by (simp add: POST_generate_def respond_def)
next
  case True
  show ?thesis
  proof (cases request_json)
    case (Inl e)
    then show ?thesis using True by (simp add: POST_generate_def respond_def)
  next
    case (Inr v)
    then show ?thesis using assms True
      by (cases "requestSchema v") (auto simp: POST_generate_def respond_def)
  qed
qed

lemma generate_calls_shape:
  "calls (POST_generate key request_json create parse) = []
   \<or> (\<exists>c. calls (POST_generate key request_json create parse) = [c])"
  by (auto simp: POST_generate_def respond_def split: sum.splits option.splits)

lemma generate_ok_reply:
  assumes "http_status (reply (POST_generate key request_json create parse)) = 200"
  shows "\<exists>payload g. payloadSchema payload = Some g
            \<and> http_body (reply (POST_generate key request_json create parse)) = GenerationBody g"
proof -
  from generate_calls_shape[of key request_json create parse] assms generate_not_called
  obtain c where c: "calls (POST_generate key request_json create parse) = [c]"
    by fastforce
  show ?thesis
  proof (cases "read_model_reply parse (create c)")
    case (Inl e)
    then show ?thesis using assms generate_called[OF c] by simp
  next
    case (Inr r)
    from read_model_reply_Inr[OF Inr] show ?thesis
      using generate_called[OF c] Inr by auto
  qed
qed

lemma generate_reaches_schema:
  assumes "calls (POST_generate key request_json create parse) = [c]"
    and "create c = Inr (Some raw)" and "raw \<noteq> []" and "parse raw = Some payload"
  shows "reply (POST_generate key request_json create parse) =
           (case payloadSchema payload of
              None \<Rightarrow> \<lparr>http_status = 500, http_body = ErrorBody ZodIssueDump None\<rparr>
            | Some g \<Rightarrow> \<lparr>http_status = 200, http_body = GenerationBody g\<rparr>)"
  using generate_called[OF assms(1)] read_model_reply_payload[of raw parse payload] assms
  by (simp split: option.splits)

text \<open>
  C1. Whenever the generation route replies 200, the body is a GenerationResult with three
  to five recipes in which every recipe and the summary satisfy the bounds of the data
  model. And when the model's reply reaches the schema (the call was made and returned a
  non-empty text that parses as JSON), a reply within the bounds is returned with as many
  recipes as it has, and a reply outside them (fewer than three recipes, more than five, a
  field that is missing, of the wrong type or too short) is rejected with status 500 and the
  schema error, not accepted and not cut down.
\<close>

theorem accepted_replies_within_bounds:
  "(http_status (reply (POST_generate key request_json create parse)) = 200 \<longrightarrow>
      (\<exists>g. http_body (reply (POST_generate key request_json create parse)) = GenerationBody g
           \<and> GenerationResult_ok g))
   \<and> (calls (POST_generate key request_json create parse) = [c]
        \<and> create c = Inr (Some raw) \<and> raw \<noteq> [] \<and> parse raw = Some payload \<longrightarrow>
        (if reply_within_bounds payload
         then \<exists>g. reply (POST_generate key request_json create parse)
                     = \<lparr>http_status = 200, http_body = GenerationBody g\<rparr>
                  \<and> GenerationResult_ok g \<and> recipe_count payload = Some (length (recipes g))
         else reply (POST_generate key request_json create parse)
                = \<lparr>http_status = 500, http_body = ErrorBody ZodIssueDump None\<rparr>))"
proof (intro conjI impI)
  assume "http_status (reply (POST_generate key request_json create parse)) = 200"
  from generate_ok_reply[OF this] payloadSchema_Some
  show "\<exists>g. http_body (reply (POST_generate key request_json create parse)) = GenerationBody g
           \<and> GenerationResult_ok g"
    by blast
next
  assume a: "calls (POST_generate key request_json create parse) = [c]
        \<and> create c = Inr (Some raw) \<and> raw \<noteq> [] \<and> parse raw = Some payload"
  then have r: "reply (POST_generate key request_json create parse) =
           (case payloadSchema payload of
              None \<Rightarrow> \<lparr>http_status = 500, http_body = ErrorBody ZodIssueDump None\<rparr>
            | Some g \<Rightarrow> \<lparr>http_status = 200, http_body = GenerationBody g\<rparr>)"
    by (intro generate_reaches_schema) auto
  show "if reply_within_bounds payload
         then \<exists>g. reply (POST_generate key request_json create parse)
                     = \<lparr>http_status = 200, http_body = GenerationBody g\<rparr>
                  \<and> GenerationResult_ok g \<and> recipe_count payload = Some (length (recipes g))
         else reply (POST_generate key request_json create parse)
                = \<lparr>http_status = 500, http_body = ErrorBody ZodIssueDump None\<rparr>"
  proof (cases "payloadSchema payload")
    case None
    moreover from None have "\<not> reply_within_bounds payload" by (simp add: payloadSchema_None)
    ultimately show ?thesis using r by simp
  next
    case (Some g)
    then have "reply_within_bounds payload" using payloadSchema_None[of payload] by simp
    then show ?thesis using r Some payloadSchema_Some[OF Some] by simp
  qed
qed

lemma three_ok:
  "payloadSchema three_recipes
     = Some \<lparr>summary = js ''Tomatoes, pasta and basil.'', recipes = [pasta, soup, bruschetta]\<rparr>"
  by (simp add: generate_samples schema_defs js_def)

lemma two_bad: "payloadSchema two_recipes = None"
  by (simp add: generate_samples schema_defs js_def)

lemma parse2: "JSON_parse_sample two_recipes_text = Some two_recipes"
  by (simp add: JSON_parse_sample_def two_recipes_text_def three_recipes_text_def js_def)


lemma sample_request_accepted:
  "requestSchema (JObj [(js ''imageDataUrl'', JStr png_data_url)])
     = Some \<lparr>imageDataUrl = png_data_url, notes = None\<rparr>"
  by (simp add: generate_samples schema_defs js_def)

lemma raw_nonempty: "three_recipes_text \<noteq> []" "two_recipes_text \<noteq> []"
  by (simp_all add: three_recipes_text_def two_recipes_text_def js_def)

lemma parse3: "JSON_parse_sample three_recipes_text = Some three_recipes"
  by (simp add: JSON_parse_sample_def)

lemma three_in_bounds: "reply_within_bounds three_recipes"
  using payloadSchema_None[of three_recipes] three_ok by simp

lemma two_out: "recipe_count two_recipes = Some 2" "\<not> reply_within_bounds two_recipes"
  using payloadSchema_None[of two_recipes] two_bad
  by (simp_all add: recipe_count_def two_recipes_def get_prop_def js_def)

lemma three_result_ok:
  "GenerationResult_ok \<lparr>summary = js ''Tomatoes, pasta and basil.'', recipes = [pasta, soup, bruschetta]\<rparr>"
  using payloadSchema_Some[OF three_ok] by simp

lemma sample_generation:
  assumes "raw \<noteq> []"
  shows "POST_generate (Some (js ''sk-test'')) (image_request png_data_url) (model_replies raw) parse
     = \<lparr>calls = [model_call \<lparr>imageDataUrl = png_data_url, notes = None\<rparr>],
        reply =
          (case parse raw of
             None \<Rightarrow>
               \<lparr>http_status = 500,
                http_body = ErrorBody (Text (js
                  ''Model response was not valid JSON. Please retake the photo and try again.''))
                  None\<rparr>
           | Some payload \<Rightarrow>
               (case payloadSchema payload of
                  None \<Rightarrow> \<lparr>http_status = 500, http_body = ErrorBody ZodIssueDump None\<rparr>
                | Some g \<Rightarrow> \<lparr>http_status = 200, http_body = GenerationBody g\<rparr>))\<rparr>"
proof -
  have "truthy_str (Some (js ''sk-test''))" by (simp add: js_def)
  then show ?thesis using assms
    by (simp add: POST_generate_def read_model_reply_def image_request_def model_replies_def
          sample_request_accepted split: option.splits)
qed

text \<open>
  A reply with three recipes is returned as it is; the same reply cut to two recipes is
  rejected with the schema error.
\<close>

theorem accepted_replies_within_bounds_witness:
  "reply (POST_generate (Some (js ''sk-test'')) (image_request png_data_url)
            (model_replies three_recipes_text) JSON_parse_sample)
     = \<lparr>http_status = 200,
        http_body = GenerationBody
          \<lparr>summary = js ''Tomatoes, pasta and basil.'', recipes = [pasta, soup, bruschetta]\<rparr>\<rparr>
   \<and> GenerationResult_ok
        \<lparr>summary = js ''Tomatoes, pasta and basil.'', recipes = [pasta, soup, bruschetta]\<rparr>
   \<and> reply_within_bounds three_recipes
   \<and> recipe_count two_recipes = Some 2
   \<and> \<not> reply_within_bounds two_recipes
   \<and> reply (POST_generate (Some (js ''sk-test'')) (image_request png_data_url)
            (model_replies two_recipes_text) JSON_parse_sample)
     = \<lparr>http_status = 500, http_body = ErrorBody ZodIssueDump None\<rparr>"
  using accepted_replies_within_bounds[of "Some (js ''sk-test'')" "image_request png_data_url"
               "model_replies three_recipes_text" JSON_parse_sample
               "model_call \<lparr>imageDataUrl = png_data_url, notes = None\<rparr>"
               three_recipes_text three_recipes]
        accepted_replies_within_bounds[of "Some (js ''sk-test'')" "image_request png_data_url"
               "model_replies two_recipes_text" JSON_parse_sample
               "model_call \<lparr>imageDataUrl = png_data_url, notes = None\<rparr>"
               two_recipes_text two_recipes]
  by (simp add: sample_generation raw_nonempty parse2 parse3 three_ok two_bad
        three_in_bounds two_out three_result_ok)

lemma class_plus_then_sublist: "class_plus_then k s \<Longrightarrow> sublist k s"
  by (induction s) (auto simp: sublist_Cons_right)

lemma regex_has_image_prefix: "image_data_url_regex s \<Longrightarrow> has_image_prefix s"
  by (simp add: image_data_url_regex_def has_image_prefix_def class_plus_then_sublist)

lemma requestSchema_image:
  assumes "requestSchema v = Some d"
  shows "image_payload (Inr v) = Some (imageDataUrl d) \<and> has_image_prefix (imageDataUrl d)"
proof (cases v)
  case (JObj ps)
  from assms obtain i where
    i: "z_string [min_len 10, image_data_url_regex] (get_prop ps (js ''imageDataUrl'')) = Some i"
    and d: "imageDataUrl d = i"
    unfolding JObj requestSchema_def z_object_def by (auto split: Option.bind_splits)
  from i have "get_prop ps (js ''imageDataUrl'') = JStr i" "image_data_url_regex i"
    by (auto simp: z_string_def split: jsval.splits if_splits)
  then show ?thesis using d JObj by (simp add: regex_has_image_prefix)
qed (use assms in \<open>simp_all add: requestSchema_def z_object_def\<close>)

text \<open>
  C2, as the code has it. A generation request whose image payload is missing, empty or
  without the prefix \<open>data:image/*;base64,\<close> leads to no call of the model provider,
  and is answered with the validation error 400 when the provider key is configured, with
  the configuration error 500 when it is not.
\<close>

theorem malformed_image_rejected_before_model_call:
  assumes "image_payload request_json = None \<or> image_payload request_json = Some []
           \<or> (\<exists>s. image_payload request_json = Some s \<and> \<not> has_image_prefix s)"
  shows "calls (POST_generate key request_json create parse) = []
       \<and> http_status (reply (POST_generate key request_json create parse))
           = (if truthy_str key then 400 else 500)"
proof (cases "truthy_str key")
  case False
  then show ?thesis by (simp add: POST_generate_def respond_def)
next
  case True
  have empty: "\<not> has_image_prefix []" by (simp add: has_image_prefix_def js_def)
  show ?thesis
  proof (cases request_json)
    case (Inl e)
    then show ?thesis using True by (simp add: POST_generate_def respond_def)
  next
    case (Inr v)
    have "requestSchema v = None"
    proof (cases "requestSchema v")
      case (Some d)
      from requestSchema_image[OF Some] assms Inr empty show ?thesis by auto
    qed simp
    then show ?thesis using True Inr by (simp add: POST_generate_def respond_def)
  qed
qed

text \<open>A text file sent as the image is refused with 400, and the model is not called.\<close>

theorem malformed_image_rejected_before_model_call_witness:
  "image_payload (image_request text_data_url) = Some text_data_url
   \<and> \<not> has_image_prefix text_data_url
   \<and> calls (POST_generate (Some (js ''sk-test'')) (image_request text_data_url)
        model_fails JSON_parse_sample) = []
   \<and> http_status (reply (POST_generate (Some (js ''sk-test'')) (image_request text_data_url)
        model_fails JSON_parse_sample)) = 400"
  using malformed_image_rejected_before_model_call
          [of "image_request text_data_url" "Some (js ''sk-test'')" model_fails JSON_parse_sample]
  by (simp add: image_request_def text_data_url_def has_image_prefix_def get_prop_def js_def)

text \<open>
  C2 as stated fails: an empty image payload on a server without the provider key is
  answered with 500, not 400.
\<close>

theorem empty_image_without_key_counterexample:
  "image_payload (image_request []) = Some []
   \<and> http_status (reply (POST_generate None (image_request []) model_fails JSON_parse_sample)) = 500"
  by (simp add: POST_generate_def respond_def image_request_def get_prop_def js_def)

text \<open>
  C8. A model reply that is valid JSON and fails the schema is surfaced with the message
  of the \<open>ZodError\<close>, the serialised list of issues, which does not tell the user to
  take the photo again: here the reply \<open>{}\<close>.
\<close>

theorem schema_failure_surfaces_issue_dump:
  "JSON_parse_sample (js ''{}'') = Some (JObj [])
   \<and> \<not> reply_within_bounds (JObj [])
   \<and> reply (POST_generate (Some (js ''sk-test'')) (image_request png_data_url)
        (model_replies (js ''{}'')) JSON_parse_sample)
      = \<lparr>http_status = 500, http_body = ErrorBody ZodIssueDump None\<rparr>
   \<and> \<not> retry_guidance ZodIssueDump"
proof -
  have p: "JSON_parse_sample (js ''{}'') = Some (JObj [])"
    by (simp add: JSON_parse_sample_def three_recipes_text_def two_recipes_text_def js_def)
  have n: "js ''{}'' \<noteq> []" by (simp add: js_def)
  have b: "\<not> reply_within_bounds (JObj [])"
    by (simp add: reply_within_bounds_def get_prop_def)
  then have "payloadSchema (JObj []) = None" by (simp add: payloadSchema_None)
  then show ?thesis using p b by (simp add: sample_generation[OF n])
qed

text \<open>
  The other half of C8 holds: a model reply that is not JSON is surfaced with the message
  that asks to retake the photo.
\<close>

lemma invalid_json_gets_guidance:
  assumes "calls (POST_generate key request_json create parse) = [c]"
    and "create c = Inr (Some raw)" and "raw \<noteq> []" and "parse raw = None"
  shows "\<exists>m. reply (POST_generate key request_json create parse)
                = \<lparr>http_status = 500, http_body = ErrorBody m None\<rparr> \<and> retry_guidance m"
proof -
  have "retry_guidance (Text (js
      ''Model response was not valid JSON. Please retake the photo and try again.''))"
    by (simp add: js_def sublist_Cons_right)
  then show ?thesis
    using generate_called[OF assms(1)] assms(2-4)
    by (simp add: read_model_reply_def)
qed

section \<open>The transcript: properties\<close>































end
